theory Spec2Isabelle
  imports Complex_Main
begin

section \<open>Python values\<close>

text \<open>
  A Python \<open>str\<close> is a sequence of Unicode code points, so it is modelled as a list of
  naturals; \<open>str\<close> embeds an ASCII literal. The values that \<open>json.loads\<close> produces
  are the type \<open>json\<close>; a Python \<open>dict\<close> is an association list in insertion order.
\<close>

type_synonym pystr = "nat list"

definition str :: "string \<Rightarrow> pystr" where
  "str s = map of_char s"

datatype json =
    JNull
  | JBool bool
  | JNum real
  | JStr pystr
  | JList "json list"
  | JDict "(pystr \<times> json) list"

text \<open>
  The exceptions the code can meet. \<open>EndpointError\<close> stands for whatever
  \<open>client.invoke_model\<close>, \<open>response['body'].read()\<close> or \<open>json.loads\<close> raise.
  \<open>ComplexResult\<close> is no exception: it marks a complex value, which the model of
  \<open>similarity.py\<close> does not follow.
\<close>

datatype py_error =
  TypeError | AttributeError | EndpointError | OverflowError | ZeroDivisionError | ComplexResult

text \<open>\<open>d.get(key, default)\<close> on a dictionary.\<close>

definition dict_get :: "(pystr \<times> json) list \<Rightarrow> pystr \<Rightarrow> json \<Rightarrow> json" where
  "dict_get kvs key dflt = (case map_of kvs key of None \<Rightarrow> dflt | Some v \<Rightarrow> v)"

text \<open>\<open>x.get(key, default)\<close> on any value: only a dictionary has the method.\<close>

fun py_get :: "json \<Rightarrow> pystr \<Rightarrow> json \<Rightarrow> py_error + json" where
  "py_get (JDict kvs) key dflt = Inr (dict_get kvs key dflt)"
| "py_get _ key dflt = Inl AttributeError"

text \<open>
  \<open>for block in x\<close>: a list yields its elements, a string its characters (each a string
  of length one), a dictionary its keys; nothing else is iterable.
\<close>

fun py_iter :: "json \<Rightarrow> py_error + json list" where
  "py_iter (JList xs) = Inr xs"
| "py_iter (JStr s) = Inr (map (\<lambda>c. JStr [c]) s)"
| "py_iter (JDict kvs) = Inr (map (\<lambda>kv. JStr (fst kv)) kvs)"
| "py_iter _ = Inl TypeError"

fun is_str :: "json \<Rightarrow> bool" where
  "is_str (JStr s) = True"
| "is_str _ = False"

section \<open>extra\_tooling.py: the CPF handler\<close>

definition Joao_da_Silva :: pystr where
  "Joao_da_Silva = str ''Jo'' @ [227] @ str ''o da Silva''"

definition CPF_DATABASE :: "(pystr \<times> pystr) list" where
  "CPF_DATABASE =
    [(str ''123.456.789-00'', Joao_da_Silva),
     (str ''987.654.321-00'', str ''Maria Santos''),
     (str ''111.222.333-44'', str ''Pedro Oliveira''),
     (str ''555.666.777-88'', str ''Ana Costa''),
     (str ''12345678900'', Joao_da_Silva),
     (str ''98765432100'', str ''Maria Santos''),
     (str ''11122233344'', str ''Pedro Oliveira''),
     (str ''55566677788'', str ''Ana Costa'')]"

text \<open>
  \<open>cpf_to_username(cpf)\<close>. The predicate \<open>isdigit\<close> is Python's \<open>str.isdigit\<close> on one
  character; it belongs to the runtime, so it is a parameter. The argument is whatever
  the model put under \<open>"cpf"\<close>:
  \<^item> a string is normalised and looked up, exact form first;
  \<^item> \<open>None\<close>, a boolean or a number is not iterable: the generator raises \<open>TypeError\<close>;
  \<open>x.isdigit()\<close> on an element that is no string raises \<open>AttributeError\<close>;
  \<^item> a list of strings or a dictionary passes the generator and is then unhashable in
    \<open>cpf in CPF_DATABASE\<close>: \<open>TypeError\<close>.
\<close>

fun cpf_to_username :: "(nat \<Rightarrow> bool) \<Rightarrow> json \<Rightarrow> py_error + pystr" where
  "cpf_to_username isdigit (JStr cpf) =
     (let normalized_cpf = filter isdigit cpf in
      case map_of CPF_DATABASE cpf of
        Some name \<Rightarrow> Inr name
      | None \<Rightarrow>
         (case map_of CPF_DATABASE normalized_cpf of
            Some name \<Rightarrow> Inr name
          | None \<Rightarrow> Inr (str ''CPF '' @ cpf @ str '' not found in database'')))"
| "cpf_to_username isdigit (JList xs) =
     (if list_all is_str xs then Inl TypeError else Inl AttributeError)"
| "cpf_to_username isdigit (JDict kvs) = Inl TypeError"
| "cpf_to_username isdigit JNull = Inl TypeError"
| "cpf_to_username isdigit (JBool b) = Inl TypeError"
| "cpf_to_username isdigit (JNum x) = Inl TypeError"

section \<open>extra\_tooling.py: the tool-calling round trip\<close>

definition tools :: json where
  "tools = JList
    [JDict
      [(str ''name'', JStr (str ''cpf_to_username'')),
       (str ''description'',
          JStr (str ''Converts a Brazilian CPF (Cadastro de Pessoas F'' @ [237] @
                str ''sicas) number to the full name of the person. The CPF can be provided with or without formatting (dots and dashes).'')),
       (str ''input_schema'', JDict
          [(str ''type'', JStr (str ''object'')),
           (str ''properties'', JDict
              [(str ''cpf'', JDict
                  [(str ''type'', JStr (str ''string'')),
                   (str ''description'',
                      JStr (str ''The CPF number to look up. Can be formatted (e.g., 123.456.789-00) or unformatted (e.g., 12345678900)''))])]),
           (str ''required'', JList [JStr (str ''cpf'')])])]]"

definition model_id :: pystr where
  "model_id = str ''anthropic.claude-3-sonnet-20240229-v1:0''"

definition request_body :: "json list \<Rightarrow> json" where
  "request_body messages = JDict
     [(str ''anthropic_version'', JStr (str ''bedrock-2023-05-31'')),
      (str ''max_tokens'', JNum 500),
      (str ''tools'', tools),
      (str ''messages'', JList messages)]"

definition user_message_of :: "pystr \<Rightarrow> json" where
  "user_message_of user_message =
     JDict [(str ''role'', JStr (str ''user'')), (str ''content'', JStr user_message)]"

definition assistant_message :: "json \<Rightarrow> json" where
  "assistant_message content_blocks =
     JDict [(str ''role'', JStr (str ''assistant'')), (str ''content'', content_blocks)]"

definition tool_results_message :: "json list \<Rightarrow> json" where
  "tool_results_message tool_results =
     JDict [(str ''role'', JStr (str ''user'')), (str ''content'', JList tool_results)]"

definition tool_result :: "json \<Rightarrow> pystr \<Rightarrow> json" where
  "tool_result tool_use_id result =
     JDict [(str ''type'', JStr (str ''tool_result'')),
            (str ''tool_use_id'', tool_use_id),
            (str ''content'', JStr result)]"

text \<open>
  The inference endpoint: \<open>client.invoke_model(modelId, body)\<close> followed by
  \<open>json.loads(response['body'].read())\<close>. It is given the number of calls made before
  this one, the model identifier and the request body, and either raises or yields the
  parsed response body.
\<close>

type_synonym endpoint = "nat \<Rightarrow> pystr \<Rightarrow> json \<Rightarrow> py_error + json"

text \<open>
  The loop of lines 122 to 143 over the content blocks, \<open>tool_results\<close> being the list
  built so far. A block that is no dictionary has no \<open>get\<close>. A \<open>tool_use\<close> block whose
  name is not \<open>cpf_to_username\<close> is passed over: the \<open>if\<close> of line 133 has no \<open>else\<close>.
\<close>

fun tool_loop :: "(nat \<Rightarrow> bool) \<Rightarrow> json list \<Rightarrow> json list \<Rightarrow> py_error + json list" where
  "tool_loop isdigit [] tool_results = Inr tool_results"
| "tool_loop isdigit (JDict block # rest) tool_results =
     (if dict_get block (str ''type'') JNull = JStr (str ''tool_use'') then
        (let tool_name = dict_get block (str ''name'') JNull;
             tool_input = dict_get block (str ''input'') (JDict []);
             tool_use_id = dict_get block (str ''id'') JNull
         in if tool_name = JStr (str ''cpf_to_username'') then
              (case py_get tool_input (str ''cpf'') (JStr []) of
                 Inl e \<Rightarrow> Inl e
               | Inr cpf \<Rightarrow>
                  (case cpf_to_username isdigit cpf of
                     Inl e \<Rightarrow> Inl e
                   | Inr result \<Rightarrow>
                       tool_loop isdigit rest (tool_results @ [tool_result tool_use_id result])))
            else tool_loop isdigit rest tool_results)
      else tool_loop isdigit rest tool_results)"
| "tool_loop isdigit (block # rest) tool_results = Inl AttributeError"

text \<open>
  The loop of lines 166 to 168: \<open>final_response += block.get('text', '')\<close> for every
  block of type \<open>text\<close>; adding anything but a string to a string raises \<open>TypeError\<close>.
\<close>

fun text_loop :: "json list \<Rightarrow> pystr \<Rightarrow> py_error + pystr" where
  "text_loop [] final_response = Inr final_response"
| "text_loop (JDict block # rest) final_response =
     (if dict_get block (str ''type'') JNull = JStr (str ''text'') then
        (case dict_get block (str ''text'') (JStr []) of
           JStr t \<Rightarrow> text_loop rest (final_response @ t)
         | _ \<Rightarrow> Inl TypeError)
      else text_loop rest final_response)"
| "text_loop (block # rest) final_response = Inl AttributeError"

definition final_text :: "json \<Rightarrow> py_error + pystr" where
  "final_text response_body =
     (case py_get response_body (str ''content'') (JList []) of
        Inl e \<Rightarrow> Inl e
      | Inr content \<Rightarrow>
         (case py_iter content of
            Inl e \<Rightarrow> Inl e
          | Inr blocks \<Rightarrow> text_loop blocks []))"

text \<open>
  The body of the \<open>try\<close> statement, lines 96 to 170. The second component is the list
  of request bodies sent to the endpoint so far, in order: it is kept when an
  exception leaves the body.
\<close>

definition try_body ::
  "(nat \<Rightarrow> bool) \<Rightarrow> endpoint \<Rightarrow> pystr \<Rightarrow> (py_error + pystr) \<times> json list" where
  "try_body isdigit client user_message =
     (let messages = [user_message_of user_message];
          request1 = request_body messages
      in case client 0 model_id request1 of
           Inl e \<Rightarrow> (Inl e, [request1])
         | Inr response_body \<Rightarrow>
            (case py_get response_body (str ''stop_reason'') JNull of
               Inl e \<Rightarrow> (Inl e, [request1])
             | Inr stop_reason \<Rightarrow>
                if stop_reason = JStr (str ''tool_use'') then
                  (case py_get response_body (str ''content'') (JList []) of
                     Inl e \<Rightarrow> (Inl e, [request1])
                   | Inr content_blocks \<Rightarrow>
                      (let messages = messages @ [assistant_message content_blocks]
                       in case py_iter content_blocks of
                            Inl e \<Rightarrow> (Inl e, [request1])
                          | Inr blocks \<Rightarrow>
                             (case tool_loop isdigit blocks [] of
                                Inl e \<Rightarrow> (Inl e, [request1])
                              | Inr tool_results \<Rightarrow>
                                 (let messages = messages @ [tool_results_message tool_results];
                                      request2 = request_body messages
                                  in case client 1 model_id request2 of
                                       Inl e \<Rightarrow> (Inl e, [request1, request2])
                                     | Inr response_body2 \<Rightarrow>
                                         (final_text response_body2, [request1, request2])))))
                else (final_text response_body, [request1])))"

text \<open>
  \<open>invoke_model_with_tools(user_message)\<close>: \<open>except Exception\<close> turns every exception
  of the body into the return value \<open>None\<close>. The result is \<open>Inr (Some s)\<close> for a returned
  string, \<open>Inr None\<close> for a returned \<open>None\<close> and \<open>Inl e\<close> for an exception that reaches
  the caller.
\<close>

definition invoke_model_with_tools ::
  "(nat \<Rightarrow> bool) \<Rightarrow> endpoint \<Rightarrow> pystr \<Rightarrow> (py_error + pystr option) \<times> json list" where
  "invoke_model_with_tools isdigit client user_message =
     (case try_body isdigit client user_message of
        (Inl e, calls) \<Rightarrow> (Inr None, calls)
      | (Inr final_response, calls) \<Rightarrow> (Inr (Some final_response), calls))"

section \<open>Vocabulary of the specification\<close>

text \<open>
  The specification's content blocks, read off a parsed response: a block is a
  \<open>ToolUse\<close> (a \<open>Text\<close>) when it is a dictionary whose \<open>type\<close> is \<open>tool_use\<close>
  (\<open>text\<close>).
\<close>

fun is_dict :: "json \<Rightarrow> bool" where
  "is_dict (JDict kvs) = True"
| "is_dict _ = False"

fun field :: "json \<Rightarrow> pystr \<Rightarrow> json \<Rightarrow> json" where
  "field (JDict kvs) key dflt = dict_get kvs key dflt"
| "field _ key dflt = dflt"

definition is_tool_use :: "json \<Rightarrow> bool" where
  "is_tool_use block = (is_dict block \<and> field block (str ''type'') JNull = JStr (str ''tool_use''))"

definition is_text :: "json \<Rightarrow> bool" where
  "is_text block = (is_dict block \<and> field block (str ''type'') JNull = JStr (str ''text''))"

definition text_of :: "json \<Rightarrow> pystr" where
  "text_of block = (case field block (str ''text'') (JStr []) of JStr t \<Rightarrow> t | _ \<Rightarrow> [])"

text \<open>The concatenation of the contents of all Text blocks, in order of appearance.\<close>

definition concat_texts :: "json list \<Rightarrow> pystr" where
  "concat_texts blocks = concat (map text_of (filter is_text blocks))"

text \<open>The registry of the code holds the one tool \<open>cpf_to_username\<close>.\<close>

definition registered :: "json \<Rightarrow> bool" where
  "registered block = (field block (str ''name'') JNull = JStr (str ''cpf_to_username''))"

text \<open>
  A response's content as the data model has it: every block is a dictionary and the
  \<open>text\<close> of a Text block is a string.
\<close>

definition text_block_ok :: "json \<Rightarrow> bool" where
  "text_block_ok block =
     (is_dict block \<and> (if is_text block then is_str (field block (str ''text'') (JStr [])) else True))"

text \<open>
  A block the tool loop handles without an exception: a dictionary that, when it is a
  ToolUse, names \<open>cpf_to_username\<close> and carries a dictionary \<open>input\<close> whose \<open>cpf\<close>,
  when present, is a string.
\<close>

definition cpf_argument :: "json \<Rightarrow> json" where
  "cpf_argument block = field (field block (str ''input'') (JDict [])) (str ''cpf'') (JStr [])"




definition first_request :: "pystr \<Rightarrow> json" where
  "first_request user_message = request_body [user_message_of user_message]"

definition second_request :: "pystr \<Rightarrow> json \<Rightarrow> json list \<Rightarrow> json" where
  "second_request user_message content_blocks tool_results =
     request_body [user_message_of user_message, assistant_message content_blocks,
                   tool_results_message tool_results]"

section \<open>Concrete runs\<close>

definition ascii_isdigit :: "nat \<Rightarrow> bool" where
  "ascii_isdigit c = (48 \<le> c \<and> c \<le> 57)"

definition response :: "string \<Rightarrow> json list \<Rightarrow> json" where
  "response stop_reason blocks =
     JDict [(str ''stop_reason'', JStr (str stop_reason)), (str ''content'', JList blocks)]"

definition text_block :: "string \<Rightarrow> json" where
  "text_block t = JDict [(str ''type'', JStr (str ''text'')), (str ''text'', JStr (str t))]"

definition tool_use_block :: "string \<Rightarrow> string \<Rightarrow> json \<Rightarrow> json" where
  "tool_use_block ident name input =
     JDict [(str ''type'', JStr (str ''tool_use'')), (str ''id'', JStr (str ident)),
            (str ''name'', JStr (str name)), (str ''input'', input)]"

definition cpf_input :: "json \<Rightarrow> json" where
  "cpf_input cpf = JDict [(str ''cpf'', cpf)]"

text \<open>An endpoint that answers the \<open>n\<close>-th call with the \<open>n\<close>-th entry of a script.\<close>

definition scripted :: "(py_error + json) list \<Rightarrow> endpoint" where
  "scripted answers n model request =
     (if n < length answers then answers ! n else Inl EndpointError)"

text \<open>The blocks and the final answer used in the concrete runs below.\<close>

definition lookup_request :: json where
  "lookup_request = tool_use_block ''toolu_01'' ''cpf_to_username'' (cpf_input (JStr (str ''123.456.789-00'')))"

definition second_lookup :: json where
  "second_lookup = tool_use_block ''toolu_02'' ''cpf_to_username'' (cpf_input (JStr (str ''98765432100'')))"

definition weather_request :: json where
  "weather_request = tool_use_block ''toolu_03'' ''get_weather'' (JDict [])"

definition malformed_lookup :: json where
  "malformed_lookup = tool_use_block ''toolu_04'' ''cpf_to_username'' (cpf_input (JNum 123))"

definition answer :: json where
  "answer = response ''end_turn'' [text_block ''The name is '', text_block ''Maria.'']"

section \<open>similarity.py\<close>





























section \<open>Evaluation and loop lemmas\<close>

lemmas run_defs =
  invoke_model_with_tools_def try_body_def final_text_def scripted_def response_def
  text_block_def tool_use_block_def cpf_input_def lookup_request_def second_lookup_def
  weather_request_def malformed_lookup_def answer_def dict_get_def first_request_def
  second_request_def request_body_def user_message_of_def assistant_message_def
  tool_results_message_def tool_result_def model_id_def str_def CPF_DATABASE_def
  Joao_da_Silva_def ascii_isdigit_def Let_def

lemmas block_defs =
  response_def text_block_def tool_use_block_def cpf_input_def lookup_request_def
  second_lookup_def weather_request_def malformed_lookup_def answer_def dict_get_def str_def

lemma text_loop_result:
  "text_loop blocks acc = Inr s \<Longrightarrow> s = acc @ concat_texts blocks"
proof (induction blocks acc rule: text_loop.induct)
  case (1 final_response)
  then show ?case by (simp add: concat_texts_def)
next
  case (2 block rest final_response)
  then show ?case
    by (auto simp: concat_texts_def is_text_def text_of_def split: if_splits json.splits)
qed simp_all

lemma text_loop_ok:
  "list_all text_block_ok blocks \<Longrightarrow> text_loop blocks acc = Inr (acc @ concat_texts blocks)"
proof (induction blocks acc rule: text_loop.induct)
  case (1 final_response)
  then show ?case by (simp add: concat_texts_def)
next
  case (2 block rest final_response)
  then show ?case
    by (auto simp: concat_texts_def is_text_def text_of_def text_block_ok_def split: if_splits json.splits)
qed (simp_all add: text_block_ok_def)

lemma cpf_to_username_str: "\<exists>result. cpf_to_username isdigit (JStr cpf) = Inr result"
  by (simp split: option.splits)

lemma is_tool_use_JDict:
  "is_tool_use (JDict block) = (dict_get block (str ''type'') JNull = JStr (str ''tool_use''))"
  by (simp add: is_tool_use_def)

lemma registered_JDict:
  "registered (JDict block) = (dict_get block (str ''name'') JNull = JStr (str ''cpf_to_username''))"
  by (simp add: registered_def)


lemma tool_loop_append:
  "tool_loop isdigit (pre @ post) acc =
     (case tool_loop isdigit pre acc of Inl e \<Rightarrow> Inl e | Inr acc' \<Rightarrow> tool_loop isdigit post acc')"
  by (induction isdigit pre acc rule: tool_loop.induct)
     (auto simp: Let_def split: sum.splits simp del: cpf_to_username.simps)


lemma tool_loop_handler_fails:
  assumes "tool_loop isdigit pre [] = Inr acc"
    and "is_tool_use (JDict block)" and "registered (JDict block)"
    and "is_dict (field (JDict block) (str ''input'') (JDict []))"
    and "cpf_to_username isdigit (cpf_argument (JDict block)) = Inl e"
  shows "tool_loop isdigit (pre @ JDict block # post) [] = Inl e"
proof -
  from assms(4) obtain kvs where kvs: "dict_get block (str ''input'') (JDict []) = JDict kvs"
    by (cases "dict_get block (str ''input'') (JDict [])") simp_all
  have "tool_loop isdigit (JDict block # post) acc = Inl e"
    using assms(2,3,5) kvs
    by (simp add: is_tool_use_JDict registered_JDict cpf_argument_def del: cpf_to_username.simps)
  then show ?thesis
    using assms(1) by (simp add: tool_loop_append)
qed



lemma concat_texts_no_text: "filter is_text blocks = [] \<Longrightarrow> concat_texts blocks = []"
proof -
  assume none: "filter is_text blocks = []"
  show ?thesis by (simp only: concat_texts_def none list.map concat.simps)
qed

lemma final_text_result:
  "final_text response_body = Inr s \<Longrightarrow>
   \<exists>kvs blocks. response_body = JDict kvs \<and>
      py_iter (dict_get kvs (str ''content'') (JList [])) = Inr blocks \<and> s = concat_texts blocks"
  by (cases response_body) (auto simp: final_text_def split: sum.splits dest: text_loop_result)

lemma final_text_ok:
  "py_iter (dict_get body (str ''content'') (JList [])) = Inr blocks \<Longrightarrow>
   list_all text_block_ok blocks \<Longrightarrow> final_text (JDict body) = Inr (concat_texts blocks)"
  by (simp add: final_text_def text_loop_ok)

lemma try_body_first_fails:
  "client 0 model_id (first_request user_message) = Inl e \<Longrightarrow>
   try_body isdigit client user_message = (Inl e, [first_request user_message])"
  by (simp add: try_body_def first_request_def)

lemma try_body_no_tool:
  "client 0 model_id (first_request user_message) = Inr (JDict body) \<Longrightarrow>
   dict_get body (str ''stop_reason'') JNull \<noteq> JStr (str ''tool_use'') \<Longrightarrow>
   try_body isdigit client user_message = (final_text (JDict body), [first_request user_message])"
  by (simp add: try_body_def first_request_def)

lemma try_body_tool_fails:
  "client 0 model_id (first_request user_message) = Inr (JDict body) \<Longrightarrow>
   dict_get body (str ''stop_reason'') JNull = JStr (str ''tool_use'') \<Longrightarrow>
   py_iter (dict_get body (str ''content'') (JList [])) = Inr blocks \<Longrightarrow>
   tool_loop isdigit blocks [] = Inl e \<Longrightarrow>
   try_body isdigit client user_message = (Inl e, [first_request user_message])"
  by (simp add: try_body_def first_request_def)

lemma try_body_tool:
  "client 0 model_id (first_request user_message) = Inr (JDict body) \<Longrightarrow>
   dict_get body (str ''stop_reason'') JNull = JStr (str ''tool_use'') \<Longrightarrow>
   py_iter (dict_get body (str ''content'') (JList [])) = Inr blocks \<Longrightarrow>
   tool_loop isdigit blocks [] = Inr tool_results \<Longrightarrow>
   try_body isdigit client user_message =
     (case client 1 model_id
             (second_request user_message (dict_get body (str ''content'') (JList [])) tool_results) of
        Inl e \<Rightarrow> Inl e
      | Inr response_body2 \<Rightarrow> final_text response_body2,
      [first_request user_message,
       second_request user_message (dict_get body (str ''content'') (JList [])) tool_results])"
  by (simp add: try_body_def first_request_def second_request_def split: sum.splits)

lemma try_body_calls:
  "snd (try_body isdigit client user_message) = [first_request user_message] \<or>
   (\<exists>content tool_results. snd (try_body isdigit client user_message) =
       [first_request user_message, second_request user_message content tool_results])"
  by (auto simp: try_body_def first_request_def second_request_def Let_def split: sum.splits)

lemma invoke_calls:
  "snd (invoke_model_with_tools isdigit client user_message) = snd (try_body isdigit client user_message)"
  by (simp add: invoke_model_with_tools_def split: prod.splits sum.splits)



section \<open>The CPF handler\<close>

text \<open>
  C9. For every CPF string whose exact form and whose digits-only normalisation are both
  absent from the database, \<open>cpf_to_username\<close> returns normally, with the string
  \<open>CPF <cpf> not found in database\<close>: a miss is a result, not an error.
\<close>

theorem cpf_to_username_not_found:
  assumes "map_of CPF_DATABASE cpf = None"
    and "map_of CPF_DATABASE (filter isdigit cpf) = None"
  shows "cpf_to_username isdigit (JStr cpf) =
           Inr (str ''CPF '' @ cpf @ str '' not found in database'')"
  using assms by simp

theorem cpf_to_username_not_found_witness:
  "map_of CPF_DATABASE (str ''999.999.999-99'') = None \<and>
   map_of CPF_DATABASE (filter ascii_isdigit (str ''999.999.999-99'')) = None \<and>
   cpf_to_username ascii_isdigit (JStr (str ''999.999.999-99'')) =
     Inr (str ''CPF 999.999.999-99 not found in database'')"
proof -
  have exact: "map_of CPF_DATABASE (str ''999.999.999-99'') = None"
    by (simp add: CPF_DATABASE_def str_def)
  have digits: "filter ascii_isdigit (str ''999.999.999-99'') = str ''99999999999''"
    by (simp add: str_def ascii_isdigit_def)
  have normalised: "map_of CPF_DATABASE (filter ascii_isdigit (str ''999.999.999-99'')) = None"
    unfolding digits by (simp add: CPF_DATABASE_def str_def)
  have "cpf_to_username ascii_isdigit (JStr (str ''999.999.999-99'')) =
          Inr (str ''CPF '' @ str ''999.999.999-99'' @ str '' not found in database'')"
    using cpf_to_username_not_found [OF exact normalised] .
  then show ?thesis
    using exact normalised by (simp add: str_def)
qed

section \<open>The round trip without a tool request\<close>

text \<open>
  C4. When the first response is a dictionary whose \<open>stop_reason\<close> is not
  \<open>tool_use\<close> and whose content is as the data model has it (blocks are
  dictionaries, the \<open>text\<close> of a Text block is a string), the run makes exactly one
  inference call and returns the concatenation of that response's Text blocks.
\<close>

theorem no_tool_request_single_call:
  assumes "client 0 model_id (first_request user_message) = Inr (JDict body)"
    and "dict_get body (str ''stop_reason'') JNull \<noteq> JStr (str ''tool_use'')"
    and "py_iter (dict_get body (str ''content'') (JList [])) = Inr blocks"
    and "list_all text_block_ok blocks"
  shows "invoke_model_with_tools isdigit client user_message =
           (Inr (Some (concat_texts blocks)), [first_request user_message])"
  using assms by (simp add: invoke_model_with_tools_def try_body_no_tool final_text_ok)

theorem no_tool_request_single_call_witness:
  "invoke_model_with_tools ascii_isdigit (scripted [Inr answer]) (str ''Who?'') =
     (Inr (Some (str ''The name is Maria.'')), [first_request (str ''Who?'')])"
proof -
  let ?blocks = "[text_block ''The name is '', text_block ''Maria.'']"
  let ?body = "[(str ''stop_reason'', JStr (str ''end_turn'')), (str ''content'', JList ?blocks)]"
  have first: "scripted [Inr answer] 0 model_id (first_request (str ''Who?'')) = Inr (JDict ?body)"
    by (simp add: scripted_def answer_def response_def)
  have stop: "dict_get ?body (str ''stop_reason'') JNull \<noteq> JStr (str ''tool_use'')"
    by (simp add: dict_get_def str_def)
  have iter: "py_iter (dict_get ?body (str ''content'') (JList [])) = Inr ?blocks"
    by (simp add: dict_get_def str_def)
  have ok: "list_all text_block_ok ?blocks"
    by (simp add: text_block_ok_def is_text_def block_defs)
  have texts: "concat_texts ?blocks = str ''The name is Maria.''"
    by (simp add: concat_texts_def is_text_def text_of_def block_defs)
  show ?thesis
    using no_tool_request_single_call
      [where client = "scripted [Inr answer]" and isdigit = ascii_isdigit, OF first stop iter ok]
    by (simp only: texts)
qed

section \<open>The returned text\<close>

text \<open>
  C7. Whenever the run returns a string, that string is the concatenation, in order of
  appearance, of the contents of the Text blocks of the final response, which is the
  response to the last call made; it is empty when that response has no Text block.
\<close>

theorem result_is_text_of_final_response:
  assumes "invoke_model_with_tools isdigit client user_message = (Inr (Some s), calls)"
  shows "\<exists>final blocks.
           client (length calls - 1) model_id (last calls) = Inr (JDict final) \<and>
           py_iter (dict_get final (str ''content'') (JList [])) = Inr blocks \<and>
           s = concat_texts blocks \<and>
           (filter is_text blocks = [] \<longrightarrow> s = [])"
proof -
  have "\<exists>final. client (length calls - 1) model_id (last calls) = Inr final \<and> final_text final = Inr s"
    using assms
    by (auto simp: invoke_model_with_tools_def try_body_def Let_def
             split: sum.splits if_splits prod.splits)
  then obtain final where "client (length calls - 1) model_id (last calls) = Inr final"
    and "final_text final = Inr s" by blast
  with final_text_result [of final s] obtain kvs blocks where
    "client (length calls - 1) model_id (last calls) = Inr (JDict kvs)"
    "py_iter (dict_get kvs (str ''content'') (JList [])) = Inr blocks"
    "s = concat_texts blocks" by blast
  moreover have "filter is_text blocks = [] \<longrightarrow> concat_texts blocks = []"
    by (simp add: concat_texts_no_text)
  ultimately show ?thesis by blast
qed

theorem result_is_text_of_final_response_witness:
  "\<exists>final blocks.
     scripted [Inr (response ''tool_use'' [lookup_request]), Inr answer] 1 model_id
       (second_request (str ''Who?'') (JList [lookup_request])
          [tool_result (JStr (str ''toolu_01'')) Joao_da_Silva]) = Inr (JDict final) \<and>
     py_iter (dict_get final (str ''content'') (JList [])) = Inr blocks \<and>
     str ''The name is Maria.'' = concat_texts blocks"
proof -
  let ?client = "scripted [Inr (response ''tool_use'' [lookup_request]), Inr answer]"
  let ?calls = "[first_request (str ''Who?''),
     second_request (str ''Who?'') (JList [lookup_request])
       [tool_result (JStr (str ''toolu_01'')) Joao_da_Silva]]"
  have run: "invoke_model_with_tools ascii_isdigit ?client (str ''Who?'') =
     (Inr (Some (str ''The name is Maria.'')), ?calls)"
    by (simp add: run_defs)
  show ?thesis
    using result_is_text_of_final_response [OF run] by auto
qed

section \<open>At most two inference calls\<close>

text \<open>
  C8. No run makes more than two inference calls. Once the tool results are collected,
  exactly one further call is made, with the conversation extended by the assistant
  message and the tool-result message, and the run returns the text of that second
  response: \<open>final_text\<close> never reads its \<open>stop_reason\<close>, so a second
  \<open>tool_use\<close> starts neither a tool nor a third call.
\<close>

theorem at_most_two_inference_calls:
  "length (snd (invoke_model_with_tools isdigit client user_message)) \<le> 2 \<and>
   (client 0 model_id (first_request user_message) = Inr (JDict body) \<and>
    dict_get body (str ''stop_reason'') JNull = JStr (str ''tool_use'') \<and>
    py_iter (dict_get body (str ''content'') (JList [])) = Inr blocks \<and>
    tool_loop isdigit blocks [] = Inr tool_results \<longrightarrow>
    invoke_model_with_tools isdigit client user_message =
      (case client 1 model_id
              (second_request user_message (dict_get body (str ''content'') (JList [])) tool_results) of
         Inl e \<Rightarrow> Inr None
       | Inr response_body2 \<Rightarrow>
           (case final_text response_body2 of Inl e \<Rightarrow> Inr None | Inr s \<Rightarrow> Inr (Some s)),
       [first_request user_message,
        second_request user_message (dict_get body (str ''content'') (JList [])) tool_results]))"
proof
  show "length (snd (invoke_model_with_tools isdigit client user_message)) \<le> 2"
    using try_body_calls [of isdigit client user_message] by (auto simp: invoke_calls)
next
  show "client 0 model_id (first_request user_message) = Inr (JDict body) \<and>
    dict_get body (str ''stop_reason'') JNull = JStr (str ''tool_use'') \<and>
    py_iter (dict_get body (str ''content'') (JList [])) = Inr blocks \<and>
    tool_loop isdigit blocks [] = Inr tool_results \<longrightarrow>
    invoke_model_with_tools isdigit client user_message =
      (case client 1 model_id
              (second_request user_message (dict_get body (str ''content'') (JList [])) tool_results) of
         Inl e \<Rightarrow> Inr None
       | Inr response_body2 \<Rightarrow>
           (case final_text response_body2 of Inl e \<Rightarrow> Inr None | Inr s \<Rightarrow> Inr (Some s)),
       [first_request user_message,
        second_request user_message (dict_get body (str ''content'') (JList [])) tool_results])"
    by (auto simp: invoke_model_with_tools_def try_body_tool split: sum.splits)
qed

text \<open>
  A run whose second response asks for a tool again: its text is returned after two calls.
\<close>

theorem at_most_two_inference_calls_witness:
  "invoke_model_with_tools ascii_isdigit
     (scripted [Inr (response ''tool_use'' [lookup_request]),
                Inr (response ''tool_use'' [text_block ''One more lookup.'', second_lookup])])
     (str ''Who?'') =
   (Inr (Some (str ''One more lookup.'')),
    [first_request (str ''Who?''),
     second_request (str ''Who?'') (JList [lookup_request])
       [tool_result (JStr (str ''toolu_01'')) Joao_da_Silva]])"
proof -
  let ?second = "response ''tool_use'' [text_block ''One more lookup.'', second_lookup]"
  let ?client = "scripted [Inr (response ''tool_use'' [lookup_request]), Inr ?second]"
  let ?body = "[(str ''stop_reason'', JStr (str ''tool_use'')), (str ''content'', JList [lookup_request])]"
  let ?results = "[tool_result (JStr (str ''toolu_01'')) Joao_da_Silva]"
  have first: "?client 0 model_id (first_request (str ''Who?'')) = Inr (JDict ?body)"
    by (simp add: scripted_def response_def)
  have stop: "dict_get ?body (str ''stop_reason'') JNull = JStr (str ''tool_use'')"
    by (simp add: dict_get_def str_def)
  have content: "dict_get ?body (str ''content'') (JList []) = JList [lookup_request]"
    by (simp add: dict_get_def str_def)
  have iter: "py_iter (dict_get ?body (str ''content'') (JList [])) = Inr [lookup_request]"
    by (simp add: content)
  have loop: "tool_loop ascii_isdigit [lookup_request] [] = Inr ?results"
    by (simp add: block_defs tool_result_def CPF_DATABASE_def Joao_da_Silva_def Let_def)
  have second: "?client 1 model_id (second_request (str ''Who?'') (JList [lookup_request]) ?results) =
      Inr ?second"
    by (simp add: scripted_def)
  have final: "final_text ?second = Inr (str ''One more lookup.'')"
    by (simp add: final_text_def block_defs)
  show ?thesis
    using at_most_two_inference_calls
      [where client = ?client and isdigit = ascii_isdigit and user_message = "str ''Who?''"
         and body = ?body and blocks = "[lookup_request]" and tool_results = ?results]
      first stop iter loop
    by (simp only: content second final sum.case simp_thms)
qed

section \<open>A tool name outside the registry\<close>




section \<open>A failing inference call\<close>

text \<open>
  C2, as the specification states it, fails: when the endpoint raises, the run does not
  raise; \<open>except Exception\<close> makes it return \<open>None\<close>.
\<close>

theorem inference_failure_counterexample:
  "scripted [] 0 model_id (first_request (str ''Who?'')) = Inl EndpointError \<and>
   invoke_model_with_tools ascii_isdigit (scripted []) (str ''Who?'') =
     (Inr None, [first_request (str ''Who?'')])"
  by (simp add: run_defs)

text \<open>
  C2, amended. When the first inference call raises, the run returns \<open>None\<close> after
  that one call; when the second inference call raises, the run returns \<open>None\<close>
  after those two calls. In both cases the failed call is the last one: nothing is retried.
\<close>

theorem inference_failure_returns_None:
  "(client 0 model_id (first_request user_message) = Inl e \<longrightarrow>
      invoke_model_with_tools isdigit client user_message =
        (Inr None, [first_request user_message])) \<and>
   (client 0 model_id (first_request user_message) = Inr (JDict body) \<and>
    dict_get body (str ''stop_reason'') JNull = JStr (str ''tool_use'') \<and>
    py_iter (dict_get body (str ''content'') (JList [])) = Inr blocks \<and>
    tool_loop isdigit blocks [] = Inr tool_results \<and>
    client 1 model_id
      (second_request user_message (dict_get body (str ''content'') (JList [])) tool_results) = Inl e \<longrightarrow>
      invoke_model_with_tools isdigit client user_message =
        (Inr None,
         [first_request user_message,
          second_request user_message (dict_get body (str ''content'') (JList [])) tool_results]))"
  by (simp add: invoke_model_with_tools_def try_body_first_fails try_body_tool)

theorem inference_failure_returns_None_witness:
  "invoke_model_with_tools ascii_isdigit (scripted [Inl EndpointError]) (str ''Who?'') =
     (Inr None, [first_request (str ''Who?'')]) \<and>
   invoke_model_with_tools ascii_isdigit
     (scripted [Inr (response ''tool_use'' [lookup_request]), Inl EndpointError]) (str ''Who?'') =
     (Inr None,
      [first_request (str ''Who?''),
       second_request (str ''Who?'') (JList [lookup_request])
         [tool_result (JStr (str ''toolu_01'')) Joao_da_Silva]])"
proof -
  let ?client = "scripted [Inr (response ''tool_use'' [lookup_request]), Inl EndpointError]"
  let ?body = "[(str ''stop_reason'', JStr (str ''tool_use'')), (str ''content'', JList [lookup_request])]"
  let ?results = "[tool_result (JStr (str ''toolu_01'')) Joao_da_Silva]"
  have fails: "scripted [Inl EndpointError] 0 model_id (first_request (str ''Who?'')) = Inl EndpointError"
    by (simp add: scripted_def)
  have first: "?client 0 model_id (first_request (str ''Who?'')) = Inr (JDict ?body)"
    by (simp add: scripted_def response_def)
  have stop: "dict_get ?body (str ''stop_reason'') JNull = JStr (str ''tool_use'')"
    by (simp add: dict_get_def str_def)
  have content: "dict_get ?body (str ''content'') (JList []) = JList [lookup_request]"
    by (simp add: dict_get_def str_def)
  have iter: "py_iter (dict_get ?body (str ''content'') (JList [])) = Inr [lookup_request]"
    by (simp add: content)
  have loop: "tool_loop ascii_isdigit [lookup_request] [] = Inr ?results"
    by (simp add: block_defs tool_result_def CPF_DATABASE_def Joao_da_Silva_def Let_def)
  have second: "?client 1 model_id
      (second_request (str ''Who?'') (dict_get ?body (str ''content'') (JList [])) ?results) =
      Inl EndpointError"
    by (simp add: scripted_def)
  have one: "invoke_model_with_tools ascii_isdigit (scripted [Inl EndpointError]) (str ''Who?'') =
     (Inr None, [first_request (str ''Who?'')])"
    using inference_failure_returns_None
      [where client = "scripted [Inl EndpointError]" and isdigit = ascii_isdigit
         and user_message = "str ''Who?''" and e = EndpointError] fails
    by blast
  have two: "invoke_model_with_tools ascii_isdigit ?client (str ''Who?'') =
     (Inr None,
      [first_request (str ''Who?''),
       second_request (str ''Who?'') (dict_get ?body (str ''content'') (JList [])) ?results])"
    using inference_failure_returns_None
      [where client = ?client and isdigit = ascii_isdigit and user_message = "str ''Who?''"
         and body = ?body and blocks = "[lookup_request]" and tool_results = ?results
         and e = EndpointError] first stop iter loop second
    by blast
  show ?thesis
    using one two by (simp only: content simp_thms)
qed

section \<open>A failing handler\<close>

text \<open>
  C3, as the specification states it, fails: a \<open>cpf\<close> argument that is a number
  makes the handler raise \<open>TypeError\<close>; no ToolResult is built from the failure, no
  second call is made and the run returns \<open>None\<close>, not a string.
\<close>

theorem handler_failure_counterexample:
  "cpf_to_username ascii_isdigit (JNum 123) = Inl TypeError \<and>
   invoke_model_with_tools ascii_isdigit
     (scripted [Inr (response ''tool_use'' [malformed_lookup]), Inr answer]) (str ''Who?'') =
   (Inr None, [first_request (str ''Who?'')])"
  by (simp add: run_defs)

text \<open>
  C3, amended. The handler never fails on a string argument. When it raises on the
  argument of a ToolUse block (the blocks before it being handled without an exception),
  the failure is caught by the one \<open>try\<close> statement around the whole round trip:
  the run makes no second inference call and returns \<open>None\<close>.
\<close>

theorem handler_failure_aborts_run:
  assumes "client 0 model_id (first_request user_message) = Inr (JDict body)"
    and "dict_get body (str ''stop_reason'') JNull = JStr (str ''tool_use'')"
    and "py_iter (dict_get body (str ''content'') (JList [])) = Inr (pre @ JDict block # post)"
    and "tool_loop isdigit pre [] = Inr acc"
    and "is_tool_use (JDict block)" and "registered (JDict block)"
    and "is_dict (field (JDict block) (str ''input'') (JDict []))"
    and "cpf_to_username isdigit (cpf_argument (JDict block)) = Inl e"
  shows "invoke_model_with_tools isdigit client user_message =
           (Inr None, [first_request user_message]) \<and>
         (\<forall>cpf. \<exists>result. cpf_to_username isdigit (JStr cpf) = Inr result)"
proof -
  have "tool_loop isdigit (pre @ JDict block # post) [] = Inl e"
    using tool_loop_handler_fails [OF assms(4-8)] .
  then have "try_body isdigit client user_message = (Inl e, [first_request user_message])"
    using assms(1,2,3) by (simp add: try_body_tool_fails)
  then show ?thesis
    using cpf_to_username_str by (simp add: invoke_model_with_tools_def)
qed

theorem handler_failure_aborts_run_witness:
  "invoke_model_with_tools ascii_isdigit
     (scripted [Inr (response ''tool_use'' [lookup_request, malformed_lookup]), Inr answer])
     (str ''Who?'') =
   (Inr None, [first_request (str ''Who?'')]) \<and>
   (\<forall>cpf. \<exists>result. cpf_to_username ascii_isdigit (JStr cpf) = Inr result)"
proof -
  let ?blocks = "[lookup_request, malformed_lookup]"
  let ?client = "scripted [Inr (response ''tool_use'' ?blocks), Inr answer]"
  let ?body = "[(str ''stop_reason'', JStr (str ''tool_use'')), (str ''content'', JList ?blocks)]"
  let ?block = "[(str ''type'', JStr (str ''tool_use'')), (str ''id'', JStr (str ''toolu_04'')),
                 (str ''name'', JStr (str ''cpf_to_username'')),
                 (str ''input'', JDict [(str ''cpf'', JNum 123)])]"
  have first: "?client 0 model_id (first_request (str ''Who?'')) = Inr (JDict ?body)"
    by (simp add: scripted_def response_def)
  have stop: "dict_get ?body (str ''stop_reason'') JNull = JStr (str ''tool_use'')"
    by (simp add: dict_get_def str_def)
  have iter: "py_iter (dict_get ?body (str ''content'') (JList [])) =
                Inr ([lookup_request] @ JDict ?block # [])"
    by (simp add: dict_get_def str_def malformed_lookup_def tool_use_block_def cpf_input_def)
  have before: "tool_loop ascii_isdigit [lookup_request] [] =
                  Inr [tool_result (JStr (str ''toolu_01'')) Joao_da_Silva]"
    by (simp add: block_defs tool_result_def CPF_DATABASE_def Joao_da_Silva_def Let_def)
  have tool_use: "is_tool_use (JDict ?block)"
    by (simp add: is_tool_use_def dict_get_def str_def)
  have known: "registered (JDict ?block)"
    by (simp add: registered_def dict_get_def str_def)
  have input: "is_dict (field (JDict ?block) (str ''input'') (JDict []))"
    by (simp add: dict_get_def str_def)
  have raises: "cpf_to_username ascii_isdigit (cpf_argument (JDict ?block)) = Inl TypeError"
    by (simp add: cpf_argument_def dict_get_def str_def)
  show ?thesis
    using handler_failure_aborts_run
      [where client = ?client and isdigit = ascii_isdigit,
       OF first stop iter before tool_use known input raises] .
qed

section \<open>One tool request\<close>




section \<open>Several tool requests\<close>




section \<open>Cosine similarity\<close>

































































end
